theory Spec2Isabelle
  imports Complex_Main "HOL-Library.Sublist" "HOL-Library.Word"
begin

section \<open>JavaScript values used by server.js\<close>

text \<open>
  A JavaScript number is modelled by a real: the arithmetic of the source
  (\<open>*\<close>, \<open>+\<close>, \<open>-\<close>, \<open>>\<close>) is the exact one, without the rounding of doubles
  and without NaN or the infinities. A thrown \<open>Error\<close> (or a rejected promise) is
  the left summand of a sum type; a returned value (or a resolved promise) the right one.
\<close>

datatype js_error = Error string

type_synonym byte = "8 word"

text \<open>
  \<open>Math.random()\<close> reads and advances a hidden generator. Its state is the
  sequence of the numbers that the coming calls return; one call returns the head and
  leaves the tail.
\<close>

type_synonym rng = "nat \<Rightarrow> real"

definition Math_random :: "rng \<Rightarrow> real \<times> rng" where
  "Math_random g = (g 0, (\<lambda>n. g (Suc n)))"

section \<open>The mock classifier (class EdgeImpulseClassifier)\<close>

record EdgeImpulseClassifier =
  initialized :: bool

record ProjectInfo =
  owner :: string
  name :: string
  version :: string

record ClassScore =
  label :: string
  val :: real

record ClassificationResult =
  anomaly :: bool
  results :: "ClassScore list"

text \<open>\<open>new EdgeImpulseClassifier()\<close>: the field initialiser \<open>_initialized = false\<close>.\<close>

definition new_EdgeImpulseClassifier :: EdgeImpulseClassifier where
  "new_EdgeImpulseClassifier = \<lparr>initialized = False\<rparr>"

text \<open>
  \<open>init\<close> returns the object after the call, the lines written to the console and
  the outcome of the promise.
\<close>

definition init :: "EdgeImpulseClassifier \<Rightarrow> EdgeImpulseClassifier \<times> string list \<times> (js_error + unit)" where
  "init this =
     (if initialized this = True then (this, [], Inr ())
      else (this\<lparr>initialized := True\<rparr>, [''Mock classifier initialized''], Inr ()))"

definition getProjectInfo :: "EdgeImpulseClassifier \<Rightarrow> ProjectInfo" where
  "getProjectInfo this =
     \<lparr>owner = ''Demo'', name = ''Parkinsons Speech Analysis'', version = ''1.0.0''\<rparr>"

text \<open>
  \<open>classify(rawData, debug = false)\<close>: one draw of \<open>Math.random()\<close>; the body has
  no \<open>throw\<close>, so every path returns.
\<close>

definition classify ::
  "EdgeImpulseClassifier \<Rightarrow> real list \<Rightarrow> bool \<Rightarrow> rng \<Rightarrow> js_error + (ClassificationResult \<times> rng)" where
  "classify this rawData debug g =
     (let (r, g') = Math_random g;
          healthyScore = r * 0.4 + 0.3;
          parkinsonScore = 1 - healthyScore
      in Inr (\<lparr>anomaly = parkinsonScore > 0.6,
                results = [\<lparr>label = ''healthy'', val = healthyScore\<rparr>,
                           \<lparr>label = ''parkinson'', val = parkinsonScore\<rparr>]\<rparr>, g'))"

section \<open>Audio processing functions\<close>

text \<open>
  The \<open>for\<close> loop of \<open>extractFeaturesFromAudio\<close>:
  \<^verbatim>\<open>for (let i = 0; i < numFeatures; i++) {
      features.push((Math.sin(seed + i) + Math.random() * 0.5) * 0.5); }\<close>
  The state of the loop is the counter, the array built so far and the generator.
\<close>

function extractFeatures_loop ::
  "nat \<Rightarrow> nat \<Rightarrow> nat \<Rightarrow> real list \<Rightarrow> rng \<Rightarrow> real list \<times> rng" where
  "extractFeatures_loop numFeatures seed i features g =
     (if i < numFeatures then
        (let (r, g') = Math_random g
         in extractFeatures_loop numFeatures seed (Suc i)
              (features @ [(sin (real (seed + i)) + r * 0.5) * 0.5]) g')
      else (features, g))"
  by pat_completeness auto
termination
  by (relation "measure (\<lambda>(numFeatures, seed, i, features, g). numFeatures - i)")
     (auto simp: Math_random_def)

declare extractFeatures_loop.simps [simp del]

text \<open>
  \<open>async function extractFeaturesFromAudio(audioBuffer)\<close>. The buffer is read
  through \<open>audioBuffer.length\<close> only; nothing in the body throws, so the promise
  resolves with the array.
\<close>

definition extractFeaturesFromAudio :: "byte list \<Rightarrow> rng \<Rightarrow> js_error + (real list \<times> rng)" where
  "extractFeaturesFromAudio audioBuffer g =
     (let numFeatures = 128;
          features = [];
          seed = length audioBuffer mod 1000
      in Inr (extractFeatures_loop numFeatures seed 0 features g))"

text \<open>
  The file system, as far as \<open>fs.existsSync\<close>, \<open>fs.readFileSync\<close> and
  \<open>fs.unlinkSync\<close> see it: a partial map from paths to the bytes of regular files.
\<close>

type_synonym filesystem = "string \<rightharpoonup> byte list"

definition existsSync :: "filesystem \<Rightarrow> string \<Rightarrow> bool" where
  "existsSync fs p = (fs p \<noteq> None)"

definition readFileSync :: "filesystem \<Rightarrow> string \<Rightarrow> js_error + byte list" where
  "readFileSync fs p =
     (case fs p of None \<Rightarrow> Inl (Error ''ENOENT: no such file or directory'')
      | Some bytes \<Rightarrow> Inr bytes)"

definition unlinkSync :: "filesystem \<Rightarrow> string \<Rightarrow> filesystem" where
  "unlinkSync fs p = fs(p := None)"

text \<open>
  \<open>processAudioFile(filePath)\<close>: the promise is rejected with whatever the
  \<open>try\<close> block throws and resolved with the features otherwise.
\<close>

definition processAudioFile :: "filesystem \<Rightarrow> string \<Rightarrow> rng \<Rightarrow> js_error + (real list \<times> rng)" where
  "processAudioFile fs filePath g =
     (if \<not> existsSync fs filePath then Inl (Error ''Audio file not found'')
      else (case readFileSync fs filePath of
              Inl error \<Rightarrow> Inl error
            | Inr audioBuffer \<Rightarrow>
                (case extractFeaturesFromAudio audioBuffer g of
                   Inl error \<Rightarrow> Inl error
                 | Inr (features, g') \<Rightarrow> Inr (features, g'))))"

section \<open>Interpreting the classification\<close>

text \<open>
  Labels are byte strings. \<open>toLowerCase\<close> maps the letters A to Z to a to z and
  leaves every other byte alone, which is what \<open>String.prototype.toLowerCase\<close> does
  on an ASCII label; \<open>s.includes(t)\<close> holds when \<open>t\<close> occurs in \<open>s\<close> as a
  contiguous substring.
\<close>

definition toLowerCase :: "string \<Rightarrow> string" where
  "toLowerCase s =
     map (\<lambda>c. if (65::nat) \<le> of_char c \<and> of_char c \<le> (90::nat)
              then char_of (of_char c + (32::nat)) else c) s"

definition String_includes :: "string \<Rightarrow> string \<Rightarrow> bool" where
  "String_includes s t = sublist t s"

record Interpretation =
  hasParkinson :: bool
  confidence :: real
  message :: string

text \<open>
  \<open>interpretResults(result)\<close>. \<open>Array.prototype.find\<close> is \<^const>\<open>find\<close>: the
  first element that satisfies the predicate, or nothing (\<open>undefined\<close>, which is
  falsy, while every element found is an object and truthy). The rendering of a number by
  \<open>Number.prototype.toFixed\<close> belongs to the runtime and is a parameter, applied
  as \<open>toFixed x 1\<close> for \<open>x.toFixed(1)\<close>.
\<close>

definition interpretResults :: "(real \<Rightarrow> nat \<Rightarrow> string) \<Rightarrow> ClassificationResult \<Rightarrow> Interpretation" where
  "interpretResults toFixed result =
     (let parkinsonResult =
            find (\<lambda>r. String_includes (toLowerCase (label r)) ''parkinson'' \<or>
                       String_includes (toLowerCase (label r)) ''positive'') (results result);
          healthyResult =
            find (\<lambda>r. String_includes (toLowerCase (label r)) ''healthy'' \<or>
                       String_includes (toLowerCase (label r)) ''negative'') (results result)
      in case parkinsonResult of
           Some p \<Rightarrow>
             (let hasParkinson = val p > 0.5;
                  confidence =
                    (if hasParkinson then val p
                     else (case healthyResult of Some h \<Rightarrow> val h | None \<Rightarrow> 1 - val p));
                  message =
                    (if hasParkinson then
                       ''Analysis detected speech patterns that may indicate Parkinson's disease ('' @
                       toFixed (val p * 100) 1 @
                       ''% confidence). This is a screening tool only - please consult with a healthcare professional for proper medical evaluation and diagnosis.''
                     else
                       ''Analysis did not detect significant indicators of Parkinson's disease in the speech patterns ('' @
                       toFixed (confidence * 100) 1 @
                       ''% confidence in healthy classification). Remember that this is a screening tool and cannot replace professional medical advice.'')
              in \<lparr>hasParkinson = hasParkinson, confidence = confidence, message = message\<rparr>)
         | None \<Rightarrow>
             \<lparr>hasParkinson = (anomaly result \<or> False),
              confidence = 0.5,
              message = ''Analysis completed but results are inconclusive. Please consult with a healthcare professional for proper evaluation.''\<rparr>)"

text \<open>
  The decimal rendering that \<open>toFixed\<close> produces for a number of absolute value
  below \<open>10^21\<close> (ECMAScript, Number.prototype.toFixed): the sign, then the integer
  \<open>n\<close> nearest to \<open>x * 10^f\<close> (the larger one at a tie), written in decimal with
  the point before its last \<open>f\<close> digits and padded with zeros on the left.
\<close>

fun digits :: "nat \<Rightarrow> string" where
  "digits n =
     (if n < 10 then [char_of (48 + n)]
      else digits (n div 10) @ [char_of (48 + n mod 10)])"

declare digits.simps [simp del]

definition Number_toFixed :: "real \<Rightarrow> nat \<Rightarrow> string" where
  "Number_toFixed x f =
     (let s = (if x < 0 then ''-'' else []);
          x = \<bar>x\<bar>;
          n = nat \<lfloor>x * 10 ^ f + 1 / 2\<rfloor>;
          m = (if n = 0 then ''0'' else digits n);
          m = (if f \<noteq> 0 \<and> length m \<le> f then replicate (f + 1 - length m) CHR ''0'' @ m else m);
          k = length m
      in if f \<noteq> 0 then s @ take (k - f) m @ ''.'' @ drop (k - f) m else s @ m)"

section \<open>The route /api/analyze-audio\<close>

record uploaded_file =
  filename :: string
  path :: string

datatype json_body =
  Analysis ClassificationResult Interpretation
| Failure string "string option"

record response =
  status :: nat
  body :: json_body

text \<open>
  The handler of \<open>app.post('/api/analyze-audio', ...)\<close>, on the request's
  \<open>req.file\<close> (absent when nothing was uploaded), the file system and the generator.
  \<open>Analysis result interpretation\<close> is the body
  \<open>{success: true, result, interpretation}\<close>, \<open>Failure error details\<close> the body
  \<open>{success: false, error, details}\<close>. A throw inside \<open>try\<close> goes to
  \<open>catch\<close>, which removes the uploaded file and answers 500. Console output is left
  out.
\<close>

definition analyze_audio_catch ::
  "uploaded_file \<Rightarrow> filesystem \<Rightarrow> rng \<Rightarrow> js_error \<Rightarrow> response \<times> filesystem \<times> rng" where
  "analyze_audio_catch file fs g error =
     (case error of Error msg \<Rightarrow>
        (\<lparr>status = 500, body = Failure ''Failed to analyze audio'' (Some msg)\<rparr>,
         (if existsSync fs (path file) then unlinkSync fs (path file) else fs), g))"

definition analyze_audio ::
  "(real \<Rightarrow> nat \<Rightarrow> string) \<Rightarrow> EdgeImpulseClassifier \<Rightarrow> uploaded_file option \<Rightarrow> filesystem \<Rightarrow> rng
     \<Rightarrow> response \<times> filesystem \<times> rng" where
  "analyze_audio toFixed classifier req_file fs g =
     (case req_file of
        None \<Rightarrow> (\<lparr>status = 400, body = Failure ''No audio file uploaded'' None\<rparr>, fs, g)
      | Some file \<Rightarrow>
          (case processAudioFile fs (path file) g of
             Inl error \<Rightarrow> analyze_audio_catch file fs g error
           | Inr (features, g1) \<Rightarrow>
               (case classify classifier features False g1 of
                  Inl error \<Rightarrow> analyze_audio_catch file fs g1 error
                | Inr (result, g2) \<Rightarrow>
                    (let fs' = (if existsSync fs (path file) then unlinkSync fs (path file) else fs);
                         interpretation = interpretResults toFixed result
                     in (\<lparr>status = 200, body = Analysis result interpretation\<rparr>, fs', g2)))))"

section \<open>The configuration object\<close>

record audio_config =
  sampleRate :: nat
  windowSize :: nat
  hopLength :: nat
  numMFCC :: nat
  numFeatures :: nat
  preEmphasis :: real
  minFreq :: nat
  maxFreq :: nat
  numMelFilters :: nat

record model_config =
  inputLength :: nat
  threshold :: real
  labels :: "string list"

record upload_config =
  maxFileSize :: nat
  allowedFormats :: "string list"
  tempDir :: string

record config_t =
  audio :: audio_config
  model :: model_config
  upload :: upload_config

definition config :: config_t where
  "config =
     \<lparr>audio = \<lparr>sampleRate = 16000, windowSize = 1024, hopLength = 512, numMFCC = 13,
               numFeatures = 13, preEmphasis = 0.97, minFreq = 0, maxFreq = 8000,
               numMelFilters = 26\<rparr>,
      model = \<lparr>inputLength = 13, threshold = 0.5, labels = [''healthy'', ''parkinsons'']\<rparr>,
      upload = \<lparr>maxFileSize = 10 * 1024 * 1024,
                allowedFormats = [''.wav'', ''.mp3'', ''.m4a'', ''.ogg''],
                tempDir = ''./uploads''\<rparr>\<rparr>"

section \<open>Calls in sequence and sources of random numbers\<close>

text \<open>
  Two calls of the extractor on the same buffer, the second on the generator as the
  first left it.
\<close>

definition extractFeaturesFromAudio_twice ::
  "byte list \<Rightarrow> rng \<Rightarrow> js_error + (real list \<times> real list \<times> rng)" where
  "extractFeaturesFromAudio_twice audioBuffer g =
     (case extractFeaturesFromAudio audioBuffer g of
        Inl error \<Rightarrow> Inl error
      | Inr (features1, g1) \<Rightarrow>
          (case extractFeaturesFromAudio audioBuffer g1 of
             Inl error \<Rightarrow> Inl error
           | Inr (features2, g2) \<Rightarrow> Inr (features1, features2, g2)))"

text \<open>
  Generators to run the model on. \<open>Math.random()\<close> returns a number that is at
  least 0 and below 1; so do these: one that returns the same number for ever, one that
  returns 1/2, 1/3, 1/4, ..., and one that returns the numbers of a list before it goes
  on as another generator.
\<close>

definition constant_draws :: "real \<Rightarrow> rng" where
  "constant_draws r n = r"

definition harmonic_draws :: rng where
  "harmonic_draws n = 1 / (real n + 2)"

definition draws_then :: "real list \<Rightarrow> rng \<Rightarrow> rng" where
  "draws_then rs g n = (if n < length rs then rs ! n else g (n - length rs))"

text \<open>The two predicates that \<open>interpretResults\<close> passes to \<open>find\<close>.\<close>

abbreviation parkinson_label :: "ClassScore \<Rightarrow> bool" where
  "parkinson_label r \<equiv>
     String_includes (toLowerCase (label r)) ''parkinson'' \<or>
     String_includes (toLowerCase (label r)) ''positive''"

abbreviation healthy_label :: "ClassScore \<Rightarrow> bool" where
  "healthy_label r \<equiv>
     String_includes (toLowerCase (label r)) ''healthy'' \<or>
     String_includes (toLowerCase (label r)) ''negative''"

section \<open>What the extractor computes\<close>

text \<open>
  The loop started at \<open>i\<close> appends one feature for each counter from \<open>i\<close> up to
  \<open>numFeatures\<close>, uses one draw for each, and leaves the generator advanced by the
  number of features it appended.
\<close>

lemma extractFeatures_loop_eq:
  "i \<le> n \<Longrightarrow> extractFeatures_loop n seed i fs g =
     (fs @ map (\<lambda>k. (sin (real (seed + k)) + g (k - i) * 0.5) * 0.5) [i..<n],
      (\<lambda>m. g (m + (n - i))))"
proof (induction d \<equiv> "n - i" arbitrary: i fs g)
  case 0
  then show ?case by (subst extractFeatures_loop.simps) simp
next
  case (Suc d)
  then have lt: "i < n" and d: "d = n - Suc i" and le: "Suc i \<le> n" by simp_all
  have upt: "[i..<n] = i # [Suc i..<n]" using lt by (simp add: upt_conv_Cons)
  have tl: "(\<lambda>m. g (Suc (m + (n - Suc i)))) = (\<lambda>m. g (m + (n - i)))"
    using lt by (simp add: Suc_diff_Suc)
  have mp: "map (\<lambda>k. (sin (real (seed + k)) + g (Suc (k - Suc i)) * 0.5) * 0.5) [Suc i..<n]
          = map (\<lambda>k. (sin (real (seed + k)) + g (k - i) * 0.5) * 0.5) [Suc i..<n]"
  proof (rule map_cong)
    fix k assume "k \<in> set [Suc i..<n]"
    then have "Suc (k - Suc i) = k - i" by simp arith
    then show "(sin (real (seed + k)) + g (Suc (k - Suc i)) * 0.5) * 0.5
             = (sin (real (seed + k)) + g (k - i) * 0.5) * 0.5" by simp
  qed simp
  have "extractFeatures_loop n seed i fs g =
        extractFeatures_loop n seed (Suc i)
          (fs @ [(sin (real (seed + i)) + g 0 * 0.5) * 0.5]) (\<lambda>n. g (Suc n))"
    using lt by (subst extractFeatures_loop.simps) (simp add: Math_random_def)
  also have "\<dots> = (fs @ map (\<lambda>k. (sin (real (seed + k)) + g (k - i) * 0.5) * 0.5) [i..<n],
                    (\<lambda>m. g (m + (n - i))))"
    unfolding Suc.hyps(1)[OF d le] upt tl mp by simp
  finally show ?case .
qed

lemma extractFeaturesFromAudio_eq:
  "extractFeaturesFromAudio audioBuffer g =
     Inr (map (\<lambda>k. (sin (real (length audioBuffer mod 1000 + k)) + g k * 0.5) * 0.5) [0..<128],
          (\<lambda>m. g (m + 128)))"
  by (simp add: extractFeaturesFromAudio_def extractFeatures_loop_eq)

lemma scaled_bounds:
  fixes s r :: real
  assumes "- 1 \<le> s" and "s \<le> 1" and "0 \<le> r" and "r < 1"
  shows "- (1 / 2) \<le> (s + r * 0.5) * 0.5 \<and> (s + r * 0.5) * 0.5 < 3 / 4"
  using assms by simp

lemma feature_bounds:
  fixes r :: real
  assumes "0 \<le> r" and "r < 1"
  shows "- (1 / 2) \<le> (sin x + r * 0.5) * 0.5 \<and> (sin x + r * 0.5) * 0.5 < 3 / 4"
  using assms by (intro scaled_bounds) simp_all

text \<open>The rendering of 73 and of 80 percent, as the runtime prints them.\<close>

lemma Number_toFixed_examples:
  "Number_toFixed (0.73 * 100) 1 = ''73.0''"
  "Number_toFixed (0.8 * 100) 1 = ''80.0''"
  by code_simp+

section \<open>Determinism of the extractor\<close>

text \<open>
  Claim C1, as the code has it. Two calls of \<open>extractFeaturesFromAudio\<close> on the same
  bytes return the same feature vector whenever \<open>Math.random()\<close> returns the same 128
  numbers during both calls: the vector is a function of the bytes and of those draws,
  not of the bytes alone.
\<close>

theorem extract_same_draws:
  assumes "map g1 [0..<128] = map g2 [0..<128]"
  shows "map_sum id fst (extractFeaturesFromAudio audioBuffer g1)
       = map_sum id fst (extractFeaturesFromAudio audioBuffer g2)"
proof -
  have "g1 k = g2 k" if "k < 128" for k
    using assms that by (auto simp del: upt_Suc)
  then show ?thesis
    by (simp add: extractFeaturesFromAudio_eq del: upt_Suc)
qed

text \<open>
  Two generators that agree on their first 128 numbers and differ at the next one give
  the same features for a buffer of four bytes.
\<close>

theorem extract_same_draws_witness:
  "map harmonic_draws [0..<128]
     = map (draws_then (map harmonic_draws [0..<128]) (constant_draws 0)) [0..<128]
   \<and> harmonic_draws 128 \<noteq> draws_then (map harmonic_draws [0..<128]) (constant_draws 0) 128
   \<and> map_sum id fst (extractFeaturesFromAudio [0x52, 0x49, 0x46, 0x46] harmonic_draws)
     = map_sum id fst (extractFeaturesFromAudio [0x52, 0x49, 0x46, 0x46]
         (draws_then (map harmonic_draws [0..<128]) (constant_draws 0)))"
proof -
  have h: "map harmonic_draws [0..<128]
         = map (draws_then (map harmonic_draws [0..<128]) (constant_draws 0)) [0..<128]"
    by (simp add: draws_then_def del: upt_Suc)
  have n: "harmonic_draws 128 \<noteq> draws_then (map harmonic_draws [0..<128]) (constant_draws 0) 128"
    by (simp add: draws_then_def harmonic_draws_def constant_draws_def del: upt_Suc)
  show ?thesis using h n extract_same_draws [OF h] by blast
qed

text \<open>
  Claim C1, as the specification states it, fails: two calls in sequence on the same four
  bytes, with a generator that returns 1/2, 1/3, 1/4, ..., both return, and the two
  vectors differ (the first element is computed from the draw 1/2 in the first call and
  from the draw 1/130 in the second).
\<close>

theorem extract_twice_differs:
  "\<not> isl (extractFeaturesFromAudio_twice [0x52, 0x49, 0x46, 0x46] harmonic_draws)
   \<and> map_sum id fst (extractFeaturesFromAudio_twice [0x52, 0x49, 0x46, 0x46] harmonic_draws)
     \<noteq> map_sum id (fst \<circ> snd) (extractFeaturesFromAudio_twice [0x52, 0x49, 0x46, 0x46] harmonic_draws)"
proof -
  let ?f = "\<lambda>g. map (\<lambda>k. (sin (real (length [0x52, 0x49, 0x46, 0x46 :: byte] mod 1000 + k))
                           + g k * 0.5) * 0.5) [0..<128]"
  have "?f harmonic_draws ! 0 \<noteq> ?f (\<lambda>m. harmonic_draws (m + 128)) ! 0"
    by (simp add: harmonic_draws_def del: upt_Suc)
  then have "?f harmonic_draws \<noteq> ?f (\<lambda>m. harmonic_draws (m + 128))"
    by metis
  then show ?thesis
    by (simp add: extractFeaturesFromAudio_twice_def extractFeaturesFromAudio_eq del: upt_Suc)
qed

section \<open>The empty buffer\<close>

text \<open>
  Claim C2, as the code has it. For the empty buffer \<open>extractFeaturesFromAudio\<close>
  does not fail: it resolves with the 128 features computed from the seed 0.
  \<open>processAudioFile\<close> on a path that holds an empty file resolves with the same
  features, and the route answers 200 with \<open>success: true\<close> and removes the file.
\<close>

theorem empty_buffer_features:
  assumes "fs (path upl) = Some []"
  shows "extractFeaturesFromAudio [] g =
           Inr (map (\<lambda>k. (sin (real k) + g k * 0.5) * 0.5) [0..<128], (\<lambda>m. g (m + 128)))
       \<and> processAudioFile fs (path upl) g = extractFeaturesFromAudio [] g
       \<and> (\<exists>result interpretation g'.
             analyze_audio toFixed classifier (Some upl) fs g =
               (\<lparr>status = 200, body = Analysis result interpretation\<rparr>, fs(path upl := None), g'))"
  using assms
  by (simp add: extractFeaturesFromAudio_eq processAudioFile_def existsSync_def readFileSync_def
      analyze_audio_def classify_def Math_random_def unlinkSync_def Let_def del: upt_Suc)

theorem empty_buffer_features_witness:
  "[''uploads/1-empty.wav'' \<mapsto> []]
     (path \<lparr>filename = ''1-empty.wav'', path = ''uploads/1-empty.wav''\<rparr>) = Some ([] :: byte list)
   \<and> processAudioFile [''uploads/1-empty.wav'' \<mapsto> []] ''uploads/1-empty.wav'' harmonic_draws
       = Inr (map (\<lambda>k. (sin (real k) + harmonic_draws k * 0.5) * 0.5) [0..<128],
              (\<lambda>m. harmonic_draws (m + 128)))
   \<and> status (fst (analyze_audio Number_toFixed (fst (init new_EdgeImpulseClassifier))
         (Some \<lparr>filename = ''1-empty.wav'', path = ''uploads/1-empty.wav''\<rparr>)
         [''uploads/1-empty.wav'' \<mapsto> []] harmonic_draws)) = 200"
proof -
  let ?upl = "\<lparr>filename = ''1-empty.wav'', path = ''uploads/1-empty.wav''\<rparr>"
  have h: "[''uploads/1-empty.wav'' \<mapsto> []] (path ?upl) = Some ([] :: byte list)"
    by simp
  from empty_buffer_features [of "[''uploads/1-empty.wav'' \<mapsto> []]" ?upl harmonic_draws
      Number_toFixed "fst (init new_EdgeImpulseClassifier)", OF h]
  show ?thesis using h by auto
qed

text \<open>
  Claim C2, as the specification states it, fails: on the empty buffer the extractor
  returns a vector of 128 features and no error, and so does \<open>processAudioFile\<close> on
  an empty uploaded file.
\<close>

theorem empty_buffer_resolves:
  "map_sum id (length \<circ> fst) (extractFeaturesFromAudio [] harmonic_draws) = Inr 128
   \<and> map_sum id (length \<circ> fst)
        (processAudioFile [''uploads/1-empty.wav'' \<mapsto> []] ''uploads/1-empty.wav'' harmonic_draws)
      = Inr 128"
  by (simp add: extractFeaturesFromAudio_eq processAudioFile_def existsSync_def readFileSync_def)

section \<open>The anomaly flag\<close>

text \<open>
  Claim C3, as the code has it. Every call of \<open>classify\<close> returns a result whose
  \<open>parkinson\<close> score is one minus the healthy score drawn, and whose anomaly flag is
  true exactly when that score exceeds 0.6, the literal written in \<open>classify\<close>; the
  threshold of the configuration object is not read.
\<close>

theorem anomaly_above_six_tenths:
  "\<exists>res g' p. classify c rawData debug g = Inr (res, g')
      \<and> find (\<lambda>s. label s = ''parkinson'') (results res) = Some p
      \<and> val p = 1 - (g 0 * 0.4 + 0.3)
      \<and> anomaly res = (val p > 0.6)"
  by (auto simp add: classify_def Math_random_def Let_def)

text \<open>
  Claim C3, as the specification states it, fails: when \<open>Math.random()\<close> returns
  0.375 the healthy score is 0.45 and the \<open>parkinson\<close> score 0.55, which exceeds the
  configured threshold 0.5, and the anomaly flag is false.
\<close>

theorem anomaly_not_config_threshold:
  "map_sum id fst
     (classify (fst (init new_EdgeImpulseClassifier)) (replicate 128 0) False (constant_draws (3 / 8)))
     = Inr \<lparr>anomaly = False,
            results = [\<lparr>label = ''healthy'', val = 9 / 20\<rparr>, \<lparr>label = ''parkinson'', val = 11 / 20\<rparr>]\<rparr>
   \<and> 11 / 20 > threshold (model config)"
  by (simp add: classify_def Math_random_def constant_draws_def config_def)

section \<open>The interpretation\<close>

text \<open>
  Claim C4. When some score of the result has a label that contains \<open>parkinson\<close> or
  \<open>positive\<close> (in any case of letters), \<open>interpretResults\<close> takes the first such
  score \<open>p\<close>, sets \<open>hasParkinson\<close> to \<open>p.value > 0.5\<close>, and sets the confidence to
  \<open>p.value\<close> when \<open>hasParkinson\<close> holds, otherwise to the value of the first score
  whose label contains \<open>healthy\<close> or \<open>negative\<close> when there is one, otherwise to
  \<open>1 - p.value\<close>.
\<close>

theorem interpret_positive:
  assumes "s \<in> set (results result)" and "parkinson_label s"
  shows "\<exists>p. find parkinson_label (results result) = Some p
           \<and> hasParkinson (interpretResults toFixed result) = (val p > 0.5)
           \<and> confidence (interpretResults toFixed result) =
               (if val p > 0.5 then val p
                else (case find healthy_label (results result) of
                        Some h \<Rightarrow> val h
                      | None \<Rightarrow> 1 - val p))"
proof -
  from assms obtain p where p: "find parkinson_label (results result) = Some p"
    by (cases "find parkinson_label (results result)") (auto simp: find_None_iff)
  then show ?thesis
    by (simp add: interpretResults_def Let_def)
qed

text \<open>The scores \<open>{parkinson: 0.73, healthy: 0.27}\<close>: a positive verdict at 0.73.\<close>

theorem interpret_positive_witness:
  "\<lparr>label = ''parkinson'', val = 0.73\<rparr>
     \<in> set (results \<lparr>anomaly = True,
                     results = [\<lparr>label = ''parkinson'', val = 0.73\<rparr>, \<lparr>label = ''healthy'', val = 0.27\<rparr>]\<rparr>)
   \<and> parkinson_label \<lparr>label = ''parkinson'', val = 0.73\<rparr>
   \<and> hasParkinson (interpretResults Number_toFixed
        \<lparr>anomaly = True,
         results = [\<lparr>label = ''parkinson'', val = 0.73\<rparr>, \<lparr>label = ''healthy'', val = 0.27\<rparr>]\<rparr>)
   \<and> confidence (interpretResults Number_toFixed
        \<lparr>anomaly = True,
         results = [\<lparr>label = ''parkinson'', val = 0.73\<rparr>, \<lparr>label = ''healthy'', val = 0.27\<rparr>]\<rparr>)
       = 0.73"
proof -
  let ?p = "\<lparr>label = ''parkinson'', val = 0.73\<rparr>"
  let ?r = "\<lparr>anomaly = True, results = [?p, \<lparr>label = ''healthy'', val = 0.27\<rparr>]\<rparr>"
  have m: "?p \<in> set (results ?r)" by simp
  have l: "parkinson_label ?p" by (simp add: String_includes_def toLowerCase_def)
  from interpret_positive [OF m l, of Number_toFixed] l
  have "hasParkinson (interpretResults Number_toFixed ?r)
      \<and> confidence (interpretResults Number_toFixed ?r) = 0.73"
    by simp
  with m l show ?thesis by blast
qed

text \<open>
  Claim C5. Whatever the result and whatever branch is taken, the message of
  \<open>interpretResults\<close> ends with a disclaimer that refers the reader to a
  professional: the sentence of the positive verdict, the one of the negative verdict or
  the one of the fallback; so it contains the word \<open>professional\<close>.
\<close>

theorem message_disclaimer:
  "String_includes (message (interpretResults toFixed result)) ''professional''
   \<and> (suffix ''This is a screening tool only - please consult with a healthcare professional for proper medical evaluation and diagnosis.''
         (message (interpretResults toFixed result))
      \<or> suffix ''Remember that this is a screening tool and cannot replace professional medical advice.''
         (message (interpretResults toFixed result))
      \<or> suffix ''Please consult with a healthcare professional for proper evaluation.''
         (message (interpretResults toFixed result)))"
proof -
  let ?m = "message (interpretResults toFixed result)"
  let ?d1 = "''This is a screening tool only - please consult with a healthcare professional for proper medical evaluation and diagnosis.''"
  let ?d2 = "''Remember that this is a screening tool and cannot replace professional medical advice.''"
  let ?d3 = "''Please consult with a healthcare professional for proper evaluation.''"
  have s1: "sublist ''professional'' ?d1"
    using sublist_appendI [of "''professional''"
        "''This is a screening tool only - please consult with a healthcare ''"
        "'' for proper medical evaluation and diagnosis.''"]
    by simp
  have s2: "sublist ''professional'' ?d2"
    using sublist_appendI [of "''professional''"
        "''Remember that this is a screening tool and cannot replace ''" "'' medical advice.''"]
    by simp
  have s3: "sublist ''professional'' ?d3"
    using sublist_appendI [of "''professional''"
        "''Please consult with a healthcare ''" "'' for proper evaluation.''"]
    by simp
  have suf: "suffix ?d1 ?m \<or> suffix ?d2 ?m \<or> suffix ?d3 ?m"
  proof (cases "find parkinson_label (results result)")
    case None
    then have "?m = ''Analysis completed but results are inconclusive. '' @ ?d3"
      by (simp add: interpretResults_def Let_def)
    then show ?thesis by (metis suffixI)
  next
    case (Some p)
    show ?thesis
    proof (cases "val p > 0.5")
      case True
      with Some have "\<exists>a. ?m = a @ ?d1"
        by (simp add: interpretResults_def Let_def)
      then show ?thesis by (metis suffixI)
    next
      case False
      with Some have "\<exists>a. ?m = a @ ?d2"
        by (simp add: interpretResults_def Let_def)
      then show ?thesis by (metis suffixI)
    qed
  qed
  from suf s1 s2 s3 have "sublist ''professional'' ?m"
    using sublist_order.order.trans suffix_imp_sublist by blast
  with suf show ?thesis by (simp add: String_includes_def)
qed

text \<open>
  Claim C6. When no score of the result has a label that contains \<open>parkinson\<close>,
  \<open>positive\<close>, \<open>healthy\<close> or \<open>negative\<close>, \<open>interpretResults\<close> returns the
  anomaly flag of the result as \<open>hasParkinson\<close>, the confidence 0.5 and the generic
  inconclusive message.
\<close>

theorem interpret_fallback:
  assumes "\<forall>s \<in> set (results result). \<not> parkinson_label s \<and> \<not> healthy_label s"
  shows "interpretResults toFixed result =
           \<lparr>hasParkinson = anomaly result, confidence = 0.5,
            message = ''Analysis completed but results are inconclusive. Please consult with a healthcare professional for proper evaluation.''\<rparr>"
proof -
  from assms have "find parkinson_label (results result) = None"
    by (simp add: find_None_iff)
  then show ?thesis
    by (simp add: interpretResults_def Let_def)
qed

text \<open>The scores \<open>{A: 0.9, B: 0.1}\<close> with the anomaly flag set.\<close>

theorem interpret_fallback_witness:
  "interpretResults Number_toFixed
     \<lparr>anomaly = True, results = [\<lparr>label = ''A'', val = 0.9\<rparr>, \<lparr>label = ''B'', val = 0.1\<rparr>]\<rparr> =
     \<lparr>hasParkinson = True, confidence = 0.5,
      message = ''Analysis completed but results are inconclusive. Please consult with a healthcare professional for proper evaluation.''\<rparr>"
proof -
  let ?r = "\<lparr>anomaly = True, results = [\<lparr>label = ''A'', val = 0.9\<rparr>, \<lparr>label = ''B'', val = 0.1\<rparr>]\<rparr>"
  have h: "\<forall>s \<in> set (results ?r). \<not> parkinson_label s \<and> \<not> healthy_label s"
    by (simp add: String_includes_def toLowerCase_def sublist_Cons_right)
  from interpret_fallback [OF h, of Number_toFixed] show ?thesis by simp
qed

section \<open>Classifying before initialisation\<close>

text \<open>
  Claim C7, as the code has it. \<open>classify\<close> does not read \<open>_initialized\<close>: on a
  classifier on which \<open>init\<close> has not run it returns a result, the same one that it
  returns after \<open>init\<close>, and it signals no error.
\<close>

theorem classify_ignores_initialized:
  "classify c rawData debug g = classify (fst (init c)) rawData debug g
   \<and> (\<exists>res g'. classify c rawData debug g = Inr (res, g'))"
  by (simp add: classify_def Math_random_def Let_def)

text \<open>
  Claim C7, as the specification states it, fails: a classifier fresh from its
  constructor, on which \<open>init\<close> was never called, classifies a vector of 128 zeros
  and returns the scores 0.5 and 0.5 when \<open>Math.random()\<close> returns 0.5.
\<close>

theorem classify_before_init_returns:
  "\<not> initialized new_EdgeImpulseClassifier
   \<and> map_sum id fst
       (classify new_EdgeImpulseClassifier (replicate 128 0) False (constant_draws (1 / 2)))
     = Inr \<lparr>anomaly = False,
            results = [\<lparr>label = ''healthy'', val = 1 / 2\<rparr>, \<lparr>label = ''parkinson'', val = 1 / 2\<rparr>]\<rparr>"
  by (simp add: classify_def Math_random_def constant_draws_def new_EdgeImpulseClassifier_def)

section \<open>Length and range of the feature vector\<close>

text \<open>
  Claim C8, as the code has it. For every buffer, empty or not,
  \<open>extractFeaturesFromAudio\<close> returns a vector of exactly 128 elements, the number
  written as the local constant \<open>numFeatures\<close> of the extractor (the configuration
  object is not read); and when \<open>Math.random()\<close> returns numbers that are at least 0
  and below 1, every element is at least -0.5 and below 0.75.
\<close>

theorem extract_length_and_range:
  assumes "\<forall>n. 0 \<le> g n \<and> g n < 1"
  shows "\<exists>features g'. extractFeaturesFromAudio audioBuffer g = Inr (features, g')
           \<and> length features = 128
           \<and> (\<forall>x \<in> set features. - (1 / 2) \<le> x \<and> x < 3 / 4)"
proof -
  let ?features =
    "map (\<lambda>k. (sin (real (length audioBuffer mod 1000 + k)) + g k * 0.5) * 0.5) [0..<128]"
  have "length ?features = 128" by simp
  moreover have "\<forall>x \<in> set ?features. - (1 / 2) \<le> x \<and> x < 3 / 4"
  proof
    fix x assume "x \<in> set ?features"
    then obtain k where "x = (sin (real (length audioBuffer mod 1000 + k)) + g k * 0.5) * 0.5"
      by (auto simp del: upt_Suc)
    with assms feature_bounds [of "g k"] show "- (1 / 2) \<le> x \<and> x < 3 / 4"
      by blast
  qed
  ultimately show ?thesis
    unfolding extractFeaturesFromAudio_eq by blast
qed

theorem extract_length_and_range_witness:
  "(\<forall>n. 0 \<le> harmonic_draws n \<and> harmonic_draws n < 1)
   \<and> (\<exists>features g'.
         extractFeaturesFromAudio [0x52, 0x49, 0x46, 0x46] harmonic_draws = Inr (features, g')
           \<and> length features = 128
           \<and> (\<forall>x \<in> set features. - (1 / 2) \<le> x \<and> x < 3 / 4))"
proof -
  have h: "\<forall>n. 0 \<le> harmonic_draws n \<and> harmonic_draws n < 1"
    by (simp add: harmonic_draws_def)
  show ?thesis using h extract_length_and_range [OF h] by blast
qed

text \<open>
  Claim C8, as the specification states it, fails: for a buffer of four bytes the vector
  has 128 elements, while the configured feature count
  \<open>config.audio.numFeatures\<close> is 13.
\<close>

theorem extract_length_not_configured:
  "map_sum id (length \<circ> fst) (extractFeaturesFromAudio [0x52, 0x49, 0x46, 0x46] harmonic_draws)
     = Inr 128
   \<and> numFeatures (audio config) = 13"
  by (simp add: extractFeaturesFromAudio_eq config_def)

section \<open>The classifier's life cycle\<close>

text \<open>
  Claim C9. A second call of \<open>init\<close> resolves at once and changes nothing: it
  leaves the object as the first call left it, writes nothing to the console, does not
  reject, and \<open>getProjectInfo\<close> answers after it what it answered after the first
  call.
\<close>

theorem init_idempotent:
  "init (fst (init c)) = (fst (init c), [], Inr ())
   \<and> getProjectInfo (fst (init (fst (init c)))) = getProjectInfo (fst (init c))
   \<and> snd (snd (init c)) = Inr ()
   \<and> initialized (fst (init c))"
  by (simp add: init_def getProjectInfo_def)

section \<open>The features are not read by the classifier\<close>

text \<open>
  Claim C10. The result of \<open>classify\<close> does not depend on its arguments: for any two
  feature vectors, of any lengths, and any two values of \<open>debug\<close>, the same state
  of the generator gives the same result; the result always holds exactly two scores,
  labelled \<open>healthy\<close> and \<open>parkinson\<close> in this order, and no error is signalled
  for any shape of the input.
\<close>

theorem classify_ignores_features:
  "classify c rawData1 debug1 g = classify c rawData2 debug2 g
   \<and> (\<exists>res g'. classify c rawData1 debug1 g = Inr (res, g')
         \<and> map label (results res) = [''healthy'', ''parkinson''])"
  by (simp add: classify_def Math_random_def Let_def)

end
